theory Spec2Isabelle
  imports Complex_Main "HOL-Library.Word" "HOL-Library.Sublist" "HOL-Library.Multiset"
begin

section \<open>Women Travel Safety API: a model of \<open>main.py\<close> and \<open>schemas.py\<close>\<close>

text \<open>
  The service is a FastAPI application over a MongoDB database. Each handler of
  \<open>main.py\<close> becomes a function from the database (and the request) to a response and
  the database afterwards. An exception is a value of type \<open>error\<close>; a handler that raises
  after a write still returns the written database, as Python does.
\<close>

subsection \<open>Errors\<close>

datatype error =
    HTTPException nat string   \<comment> \<open>\<open>raise HTTPException(status_code=..., detail=...)\<close>\<close>
  | RequestValidationError     \<comment> \<open>FastAPI refuses a body that fails its pydantic model (422)\<close>
  | ServerError                \<comment> \<open>an exception no handler catches (500)\<close>

subsection \<open>ObjectId\<close>

text \<open>
  A BSON ObjectId is twelve bytes. \<open>ObjectId(s)\<close> accepts a string of 24 hexadecimal
  digits, upper or lower case, and \<open>str\<close> prints the 24 lower-case digits.
\<close>

type_synonym ObjectId = "96 word"

definition hex_digit :: "nat \<Rightarrow> char" where
  "hex_digit d = ''0123456789abcdef'' ! d"

definition hex_value :: "char \<Rightarrow> nat option" where
  "hex_value c =
     map_of (zip ''0123456789abcdefABCDEF''
               [0, 1, 2, 3, 4, 5, 6, 7, 8, 9, 10, 11, 12, 13, 14, 15, 10, 11, 12, 13, 14, 15]) c"

fun hex_string :: "nat \<Rightarrow> nat \<Rightarrow> string" where
  "hex_string 0 n = []"
| "hex_string (Suc k) n = hex_string k (n div 16) @ [hex_digit (n mod 16)]"

fun fromhex :: "nat \<Rightarrow> string \<Rightarrow> nat option" where
  "fromhex acc [] = Some acc"
| "fromhex acc (c # cs) =
     (case hex_value c of None \<Rightarrow> None | Some d \<Rightarrow> fromhex (16 * acc + d) cs)"

definition str_oid :: "ObjectId \<Rightarrow> string" where
  "str_oid w = hex_string 24 (unat w)"

definition ObjectId :: "string \<Rightarrow> ObjectId option" where
  "ObjectId s = (if length s = 24 then map_option of_nat (fromhex 0 s) else None)"

definition objid :: "string \<Rightarrow> error + ObjectId" where
  "objid id_str =
     (case ObjectId id_str of
        Some i \<Rightarrow> Inr i
      | None \<Rightarrow> Inl (HTTPException 400 ''Invalid ID format''))"

subsection \<open>Schemas\<close>

text \<open>
  The pydantic models of \<open>schemas.py\<close> and the request bodies of \<open>main.py\<close>, field by
  field. Two records cannot share a field name, so \<open>name\<close> is \<open>user_name\<close> and
  \<open>place_name\<close>, \<open>type\<close> is \<open>place_type\<close>, the \<open>user_id\<close> of a quiz result is
  \<open>quiz_user_id\<close>, and the fields of the bodies \<open>NewReview\<close> and \<open>Signup\<close> carry the
  prefixes \<open>new_\<close> and \<open>signup_\<close>.
\<close>

record User =
  user_name :: string
  email :: string
  photo :: "string option"
  saved_places :: "string list"
  saved_cities :: "string list"

record Place =
  place_name :: string
  city :: string
  place_type :: string
  safety_score :: rat
  description :: string
  main_tags :: "string list"

record Review =
  user_id :: string
  place_id :: string
  rating :: int
  safety_tags :: "string list"
  comment :: "string option"
  night_safe :: bool
  harassment :: bool

record QuizAnswer =
  comfort_level :: string
  solo_experience :: string
  night_travel :: string
  anxiety_triggers :: "string list"
  transport_confidence :: string

record QuizResult =
  quiz_user_id :: "string option"
  persona :: string
  recommendations :: "string list"
  answers :: QuizAnswer

text \<open>
  Constructing a pydantic model checks its \<open>Field\<close> constraints. \<open>Place\<close> has
  \<open>safety_score: float = Field(3.5, ge=0, le=5)\<close> and \<open>Review\<close> has
  \<open>rating: int = Field(..., ge=1, le=5)\<close>; a failed check raises inside the handler.
  Scores are exact rationals here, where Python has floats.
\<close>

definition Place_init ::
  "string \<Rightarrow> string \<Rightarrow> string \<Rightarrow> rat option \<Rightarrow> string \<Rightarrow> string list \<Rightarrow> error + Place" where
  "Place_init n c t score d tags =
     (let sc = (case score of None \<Rightarrow> 35 / 10 | Some x \<Rightarrow> x)
      in if 0 \<le> sc \<and> sc \<le> 5
         then Inr \<lparr>place_name = n, city = c, place_type = t, safety_score = sc,
                   description = d, main_tags = tags\<rparr>
         else Inl ServerError)"

definition Review_init ::
  "string \<Rightarrow> string \<Rightarrow> int \<Rightarrow> string list \<Rightarrow> string option \<Rightarrow> bool \<Rightarrow> bool \<Rightarrow> error + Review" where
  "Review_init u p r tags c n h =
     (if 1 \<le> r \<and> r \<le> 5
      then Inr \<lparr>user_id = u, place_id = p, rating = r, safety_tags = tags, comment = c,
                night_safe = n, harassment = h\<rparr>
      else Inl ServerError)"

subsection \<open>The database\<close>

text \<open>
  A stored document carries its \<open>_id\<close>, the creation time the server stamped on it and
  the fields of its schema. A collection is the list of its documents in insertion
  order. \<open>next_oid\<close> is the identifier the next insert is given. \<open>db\<close> is \<open>None\<close> when
  the connection was never set up (\<open>db is None\<close>).
\<close>

record 'a document =
  oid :: ObjectId
  created_at :: nat
  body :: 'a

record store =
  user :: "User document list"
  place :: "Place document list"
  review :: "Review document list"
  quizresult :: "QuizResult document list"
  next_oid :: ObjectId

type_synonym db = "store option"

definition find_one :: "('a document \<Rightarrow> bool) \<Rightarrow> 'a document list \<Rightarrow> 'a document option" where
  "find_one P coll = List.find P coll"

text \<open>\<open>update_one\<close> changes the first document the filter matches, and only that one.\<close>

fun update_one ::
  "('a document \<Rightarrow> bool) \<Rightarrow> ('a \<Rightarrow> 'a) \<Rightarrow> 'a document list \<Rightarrow> 'a document list" where
  "update_one P f [] = []"
| "update_one P f (d # ds) =
     (if P d then d\<lparr>body := f (body d)\<rparr> # ds else d # update_one P f ds)"

text \<open>\<open>insert_one\<close> refuses a document whose \<open>_id\<close> is already in the collection.\<close>

definition insert_one ::
  "'a document list \<Rightarrow> ObjectId \<Rightarrow> nat \<Rightarrow> 'a \<Rightarrow> 'a document list option" where
  "insert_one coll i now x =
     (if list_ex (\<lambda>d. oid d = i) coll then None
      else Some (coll @ [\<lparr>oid = i, created_at = now, body = x\<rparr>]))"

text \<open>\<open>$addToSet\<close> appends a value to an array unless the array holds it already.\<close>

definition addToSet :: "'a list \<Rightarrow> 'a \<Rightarrow> 'a list" where
  "addToSet xs x = (if x \<in> set xs then xs else xs @ [x])"

text \<open>
  Modelled from the spec: \<open>create_document\<close> of \<open>database.py\<close>, which is not among the
  sources. The spec gives it as \<open>insert(collection, document) \<rightarrow> id\<close>: the document gets
  a fresh identifier and a server-assigned creation timestamp, and the identifier comes
  back as a string. A collection is named by its field of the store and the update of
  that field. Without a database the call fails.
\<close>

definition create_document ::
  "(store \<Rightarrow> 'a document list) \<Rightarrow> ('a document list \<Rightarrow> store \<Rightarrow> store) \<Rightarrow>
   db \<Rightarrow> nat \<Rightarrow> 'a \<Rightarrow> (error + string) \<times> db" where
  "create_document coll put db now x =
     (case db of
        None \<Rightarrow> (Inl ServerError, db)
      | Some s \<Rightarrow>
          (case insert_one (coll s) (next_oid s) now x of
             None \<Rightarrow> (Inl ServerError, db)
           | Some docs \<Rightarrow>
               (Inr (str_oid (next_oid s)),
                Some ((put docs s)\<lparr>next_oid := next_oid s + 1\<rparr>))))"

subsection \<open>Helpers\<close>

text \<open>
  \<open>serialize\<close> replaces \<open>_id\<close> by its string under \<open>id\<close>; an absent document stays
  absent. No schema of this service nests an ObjectId, so the loop over the other
  fields changes nothing.
\<close>

record 'a serialized =
  id_str :: string
  stamped :: nat
  content :: 'a

definition serialize_doc :: "'a document \<Rightarrow> 'a serialized" where
  "serialize_doc d = \<lparr>id_str = str_oid (oid d), stamped = created_at d, content = body d\<rparr>"

definition serialize :: "'a document option \<Rightarrow> 'a serialized option" where
  "serialize doc = (case doc of None \<Rightarrow> None | Some d \<Rightarrow> Some (serialize_doc d))"

subsection \<open>The quiz\<close>

definition quiz_score :: "QuizAnswer \<Rightarrow> int" where
  "quiz_score ans =
     (let score = 0;
          score = (if comfort_level ans \<in> set [''high'', ''medium'']
                   then score + (if comfort_level ans = ''high'' then 2 else 1) else score);
          score = (if solo_experience ans \<in> set [''5+'', ''2-4'']
                   then score + (if solo_experience ans = ''5+'' then 2 else 1) else score);
          score = (if night_travel ans = ''comfortable'' then score + 2 else score);
          score = (if ''crowds'' \<notin> set (anxiety_triggers ans) then score + 1 else score);
          score = (if transport_confidence ans \<in> set [''metro'', ''ride-share'']
                   then score + 1 else score)
      in score)"

definition quiz_persona :: "int \<Rightarrow> string \<times> string list" where
  "quiz_persona score =
     (if score \<ge> 6 then (''Trailblazer'', [''Singapore'', ''Lisbon'', ''Copenhagen''])
      else if score \<ge> 4 then (''Planner'', [''Tokyo'', ''Vienna'', ''Seoul''])
      else (''Cautious Explorer'', [''Reykjavik'', ''Zurich'', ''Taipei'']))"

record QuizResponse =
  resp_id :: string
  resp_persona :: string
  resp_recommendations :: "string list"

definition evaluate_quiz ::
  "db \<Rightarrow> nat \<Rightarrow> QuizAnswer \<Rightarrow> string option \<Rightarrow> (error + QuizResponse) \<times> db" where
  "evaluate_quiz db now ans uid =
     (let (persona, recs) = quiz_persona (quiz_score ans);
          result = \<lparr>quiz_user_id = uid, persona = persona, recommendations = recs,
                    answers = ans\<rparr>
      in case create_document quizresult (\<lambda>c s. s\<lparr>quizresult := c\<rparr>) db now result of
           (Inl e, db') \<Rightarrow> (Inl e, db')
         | (Inr rid, db') \<Rightarrow>
             (Inr \<lparr>resp_id = rid, resp_persona = persona, resp_recommendations = recs\<rparr>,
              db'))"

text \<open>The scoring rule as the specification words it: five independent contributions.\<close>

definition spec_score :: "QuizAnswer \<Rightarrow> int" where
  "spec_score ans =
     (if comfort_level ans = ''high'' then 2
      else if comfort_level ans = ''medium'' then 1 else 0)
   + (if solo_experience ans = ''5+'' then 2
      else if solo_experience ans = ''2-4'' then 1 else 0)
   + (if night_travel ans = ''comfortable'' then 2 else 0)
   + (if ''crowds'' \<in> set (anxiety_triggers ans) then 0 else 1)
   + (if transport_confidence ans = ''metro'' \<or> transport_confidence ans = ''ride-share''
      then 1 else 0)"

definition spec_outcome :: "QuizAnswer \<Rightarrow> string \<times> string list" where
  "spec_outcome ans =
     (if spec_score ans \<ge> 6 then (''Trailblazer'', [''Singapore'', ''Lisbon'', ''Copenhagen''])
      else if spec_score ans \<ge> 4 then (''Planner'', [''Tokyo'', ''Vienna'', ''Seoul''])
      else (''Cautious Explorer'', [''Reykjavik'', ''Zurich'', ''Taipei'']))"

definition fearless :: QuizAnswer where
  "fearless = \<lparr>comfort_level = ''high'', solo_experience = ''5+'',
     night_travel = ''comfortable'', anxiety_triggers = [],
     transport_confidence = ''metro''\<rparr>"

definition wary :: QuizAnswer where
  "wary = \<lparr>comfort_level = ''low'', solo_experience = ''0-1'',
     night_travel = ''uncomfortable'', anxiety_triggers = [''crowds''],
     transport_confidence = ''walk''\<rparr>"

subsection \<open>Reviews and the safety score\<close>

text \<open>
  \<open>round(avg, 2)\<close>: the nearest multiple of one hundredth, a tie going to the even one.
  \<open>sum(ratings) / len(ratings)\<close> is only computed under \<open>if ratings:\<close>.
\<close>

definition round_half_even :: "rat \<Rightarrow> int" where
  "round_half_even x =
     (let f = \<lfloor>x\<rfloor>; d = x - of_int f
      in if d < 1 / 2 then f else if 1 / 2 < d then f + 1
         else if even f then f else f + 1)"

definition py_round :: "rat \<Rightarrow> nat \<Rightarrow> rat" where
  "py_round x ndigits = of_int (round_half_even (x * 10 ^ ndigits)) / 10 ^ ndigits"

definition mean :: "int list \<Rightarrow> rat" where
  "mean ratings = of_int (sum_list ratings) / of_nat (length ratings)"

record NewReview =
  new_user_id :: string
  new_rating :: int
  new_safety_tags :: "string list"
  new_comment :: "string option"
  new_night_safe :: bool
  new_harassment :: bool

text \<open>\<open>rating: int = Field(..., ge=1, le=5)\<close> of \<open>NewReview\<close>, checked on the request body.\<close>

definition NewReview_validate :: "NewReview \<Rightarrow> error + NewReview" where
  "NewReview_validate payload =
     (if 1 \<le> new_rating payload \<and> new_rating payload \<le> 5 then Inr payload
      else Inl RequestValidationError)"

text \<open>The ratings \<open>db["review"].find({"place_id": place_id})\<close> yields, in store order.\<close>

definition ratings_of :: "store \<Rightarrow> string \<Rightarrow> int list" where
  "ratings_of s pid = map (\<lambda>r. rating (body r)) (filter (\<lambda>r. place_id (body r) = pid) (review s))"

text \<open>
  \<open>add_review\<close>. The place is looked up by \<open>objid(place_id)\<close>; the reviews are found by
  the string \<open>place_id\<close> itself. The second \<open>objid(place_id)\<close>, in the update, gives the
  identifier the first one gave. Every stored review has a rating, so
  \<open>r.get("rating", 0)\<close> never falls back on 0.
\<close>

definition add_review :: "db \<Rightarrow> nat \<Rightarrow> string \<Rightarrow> NewReview \<Rightarrow> (error + string) \<times> db" where
  "add_review db now pid payload =
     (case db of
        None \<Rightarrow> (Inl (HTTPException 500 ''Database not available''), db)
      | Some s \<Rightarrow>
          (case objid pid of
             Inl e \<Rightarrow> (Inl e, db)
           | Inr i \<Rightarrow>
               (case find_one (\<lambda>d. oid d = i) (place s) of
                  None \<Rightarrow> (Inl (HTTPException 404 ''Place not found''), db)
                | Some _ \<Rightarrow>
                    (case Review_init (new_user_id payload) pid (new_rating payload)
                            (new_safety_tags payload) (new_comment payload)
                            (new_night_safe payload) (new_harassment payload) of
                       Inl e \<Rightarrow> (Inl e, db)
                     | Inr rv \<Rightarrow>
                         (case create_document review (\<lambda>c s. s\<lparr>review := c\<rparr>) db now rv of
                            (Inl e, db') \<Rightarrow> (Inl e, db')
                          | (Inr rid, None) \<Rightarrow> (Inl ServerError, None)
                          | (Inr rid, Some s') \<Rightarrow>
                              (let ratings = ratings_of s' pid
                               in if ratings \<noteq> []
                                  then (Inr rid,
                                        Some (s'\<lparr>place :=
                                          update_one (\<lambda>d. oid d = i)
                                            (\<lambda>p. p\<lparr>safety_score := py_round (mean ratings) 2\<rparr>)
                                            (place s')\<rparr>))
                                  else (Inr rid, Some s')))))))"

text \<open>
  The route \<open>POST /places/{place_id}/reviews\<close>: FastAPI validates the body against
  \<open>NewReview\<close> and only then calls the handler.
\<close>

definition post_review :: "db \<Rightarrow> nat \<Rightarrow> string \<Rightarrow> NewReview \<Rightarrow> (error + string) \<times> db" where
  "post_review db now pid raw =
     (case NewReview_validate raw of
        Inl e \<Rightarrow> (Inl e, db)
      | Inr payload \<Rightarrow> add_review db now pid payload)"


text \<open>
  \<open>.sort("created_at", -1)\<close>: newest first. Documents of equal time keep their store
  order here; MongoDB promises no order among them.
\<close>

definition sort_desc :: "('a \<Rightarrow> nat) \<Rightarrow> 'a list \<Rightarrow> 'a list" where
  "sort_desc key xs = sort_key (\<lambda>x. - int (key x)) xs"

definition list_reviews :: "db \<Rightarrow> string \<Rightarrow> error + Review serialized list" where
  "list_reviews db pid =
     (case db of
        None \<Rightarrow> Inl (HTTPException 500 ''Database not available'')
      | Some s \<Rightarrow>
          Inr (map serialize_doc
                (sort_desc created_at (filter (\<lambda>r. place_id (body r) = pid) (review s)))))"

subsection \<open>Users\<close>

record Signup =
  signup_name :: string
  signup_email :: string
  signup_photo :: "string option"

definition signup :: "db \<Rightarrow> nat \<Rightarrow> Signup \<Rightarrow> (error + User serialized option) \<times> db" where
  "signup db now payload =
     (case db of
        None \<Rightarrow> (Inl (HTTPException 500 ''Database not available''), db)
      | Some s \<Rightarrow>
          (case find_one (\<lambda>d. email (body d) = signup_email payload) (user s) of
             Some existing \<Rightarrow> (Inr (serialize (Some existing)), db)
           | None \<Rightarrow>
               (case create_document user (\<lambda>c s. s\<lparr>user := c\<rparr>) db now
                       \<lparr>user_name = signup_name payload, email = signup_email payload,
                        photo = signup_photo payload, saved_places = [], saved_cities = []\<rparr> of
                  (Inl e, db') \<Rightarrow> (Inl e, db')
                | (Inr uid, None) \<Rightarrow> (Inl ServerError, None)
                | (Inr uid, Some s') \<Rightarrow>
                    (case objid uid of
                       Inl e \<Rightarrow> (Inl e, Some s')
                     | Inr i \<Rightarrow>
                         (Inr (serialize (find_one (\<lambda>d. oid d = i) (user s'))), Some s')))))"

text \<open>\<open>save_place\<close>: the body \<open>SavePlace\<close> has the one field \<open>place_id\<close>, given here as \<open>pid\<close>.\<close>

definition save_place :: "db \<Rightarrow> string \<Rightarrow> string \<Rightarrow> (error + User serialized option) \<times> db" where
  "save_place db uid pid =
     (case db of
        None \<Rightarrow> (Inl (HTTPException 500 ''Database not available''), db)
      | Some s \<Rightarrow>
          (case objid uid of
             Inl e \<Rightarrow> (Inl e, db)
           | Inr i \<Rightarrow>
               (let s' = s\<lparr>user := update_one (\<lambda>d. oid d = i)
                                     (\<lambda>u. u\<lparr>saved_places := addToSet (saved_places u) pid\<rparr>)
                                     (user s)\<rparr>
                in (Inr (serialize (find_one (\<lambda>d. oid d = i) (user s'))), Some s'))))"

definition profile :: "db \<Rightarrow> string \<Rightarrow> error + User serialized option" where
  "profile db uid =
     (case db of
        None \<Rightarrow> Inl (HTTPException 500 ''Database not available'')
      | Some s \<Rightarrow>
          (case objid uid of
             Inl e \<Rightarrow> Inl e
           | Inr i \<Rightarrow>
               (case find_one (\<lambda>d. oid d = i) (user s) of
                  None \<Rightarrow> Inl (HTTPException 404 ''User not found'')
                | Some doc \<Rightarrow> Inr (serialize (Some doc)))))"

subsection \<open>Seeding\<close>

definition samples :: "(error + Place) list" where
  "samples =
     [Place_init ''Aurora Boutique Hotel'' ''Lisbon'' ''hotel'' (Some (47 / 10))
        ''Women-staffed, well-lit area; guests report safe returns at night.''
        [''women-staffed'', ''well-lit'', ''central''],
      Place_init ''Garden District'' ''Singapore'' ''neighborhood'' (Some (49 / 10))
        ''Exceptionally safe at night; strong street presence and cameras.''
        [''night-safe'', ''family-friendly'', ''clean''],
      Place_init ''Olive & Thyme'' ''Barcelona'' ''restaurant'' (Some (44 / 10))
        ''Busy staff presence, friendly crowd; avoid very late weekends.''
        [''staff-present'', ''friendly'', ''busy'']]"

text \<open>The list is built before anything is inserted: the first bad sample raises.\<close>

fun built :: "(error + 'a) list \<Rightarrow> error + 'a list" where
  "built [] = Inr []"
| "built (Inl e # _) = Inl e"
| "built (Inr x # rest) = (case built rest of Inl e \<Rightarrow> Inl e | Inr xs \<Rightarrow> Inr (x # xs))"

fun seed_loop :: "db \<Rightarrow> nat \<Rightarrow> Place list \<Rightarrow> string list \<Rightarrow> (error + string list) \<times> db" where
  "seed_loop db now [] ids = (Inr ids, db)"
| "seed_loop db now (p # ps) ids =
     (case create_document place (\<lambda>c s. s\<lparr>place := c\<rparr>) db now p of
        (Inl e, db') \<Rightarrow> (Inl e, db')
      | (Inr i, db') \<Rightarrow> seed_loop db' now ps (ids @ [i]))"

definition seed_sample :: "db \<Rightarrow> nat \<Rightarrow> (error + string list) \<times> db" where
  "seed_sample db now =
     (case db of
        None \<Rightarrow> (Inl (HTTPException 500 ''Database not available''), db)
      | Some s \<Rightarrow>
          (case built samples of
             Inl e \<Rightarrow> (Inl e, db)
           | Inr ps \<Rightarrow> seed_loop db now ps []))"

definition fresh_store :: "ObjectId \<Rightarrow> store" where
  "fresh_store n = \<lparr>user = [], place = [], review = [], quizresult = [], next_oid = n\<rparr>"

subsection \<open>The places directory\<close>

text \<open>
  MongoDB evaluates \<open>$regex\<close> with PCRE. The fragment modelled: ordinary characters,
  \<open>.\<close> (any character but a line feed), \<open>^\<close> (the start of the subject) and \<open>$\<close> (the
  end of the subject, or just before a line feed that ends it). A pattern with any
  other special character is outside the fragment: \<open>compile\<close> gives \<open>None\<close>. Option
  \<open>i\<close> folds the case of ASCII letters.
\<close>

datatype atom = Lit char | Dot | Caret | Dollar

definition LF :: char where
  "LF = CHR 0x0A"

definition special :: string where
  "special = [CHR 0x5C, CHR ''['', CHR '']'', CHR ''('', CHR '')'', CHR ''|'', CHR ''?'',
              CHR ''*'', CHR ''+'', CHR ''{'', CHR ''}'']"

definition compile_char :: "char \<Rightarrow> atom option" where
  "compile_char c =
     (if c = CHR ''.'' then Some Dot
      else if c = CHR ''^'' then Some Caret
      else if c = CHR ''$'' then Some Dollar
      else if c \<in> set special then None
      else Some (Lit c))"

definition compile :: "string \<Rightarrow> atom list option" where
  "compile pattern = those (map compile_char pattern)"

definition lower :: "char \<Rightarrow> char" where
  "lower c =
     (case map_of (zip ''ABCDEFGHIJKLMNOPQRSTUVWXYZ'' ''abcdefghijklmnopqrstuvwxyz'') c of
        None \<Rightarrow> c
      | Some l \<Rightarrow> l)"

definition same_char :: "bool \<Rightarrow> char \<Rightarrow> char \<Rightarrow> bool" where
  "same_char caseless c x = (if caseless then lower c = lower x else c = x)"

text \<open>
  \<open>match_here\<close>: do the atoms match at this point of the subject? \<open>start\<close> says whether
  the point is the start of the subject, \<open>rest\<close> is what follows it.
\<close>

fun match_here :: "bool \<Rightarrow> atom list \<Rightarrow> bool \<Rightarrow> string \<Rightarrow> bool" where
  "match_here caseless [] start rest = True"
| "match_here caseless (Caret # as) start rest = (start \<and> match_here caseless as start rest)"
| "match_here caseless (Dollar # as) start rest =
     ((rest = [] \<or> rest = [LF]) \<and> match_here caseless as start rest)"
| "match_here caseless (Dot # as) start [] = False"
| "match_here caseless (Dot # as) start (x # xs) = (x \<noteq> LF \<and> match_here caseless as False xs)"
| "match_here caseless (Lit c # as) start [] = False"
| "match_here caseless (Lit c # as) start (x # xs) =
     (same_char caseless c x \<and> match_here caseless as False xs)"

text \<open>A regular expression matches a string when it matches at some point of it.\<close>

fun search :: "bool \<Rightarrow> atom list \<Rightarrow> bool \<Rightarrow> string \<Rightarrow> bool" where
  "search caseless as start [] = match_here caseless as start []"
| "search caseless as start (x # xs) =
     (match_here caseless as start (x # xs) \<or> search caseless as False xs)"

definition regex_match :: "string \<Rightarrow> string \<Rightarrow> string \<Rightarrow> bool" where
  "regex_match pattern options subject =
     (case compile pattern of
        None \<Rightarrow> False
      | Some as \<Rightarrow> search (CHR ''i'' \<in> set options) as True subject)"

text \<open>
  The filter documents \<open>list_places\<close> builds: a field with a condition on it, or \<open>$or\<close>
  over clauses; the clauses of a filter all have to hold.
\<close>

datatype cond = Regex string string | ElemMatch cond

datatype clause = Field string cond | Or "clause list"

datatype bson = String string | Array "string list" | Double rat

definition place_field :: "Place \<Rightarrow> string \<Rightarrow> bson option" where
  "place_field p k =
     (if k = ''name'' then Some (String (place_name p))
      else if k = ''city'' then Some (String (city p))
      else if k = ''type'' then Some (String (place_type p))
      else if k = ''safety_score'' then Some (Double (safety_score p))
      else if k = ''description'' then Some (String (description p))
      else if k = ''main_tags'' then Some (Array (main_tags p))
      else None)"

text \<open>
  A regular expression on an array field holds when an element matches;
  \<open>$elemMatch\<close> asks for an array with an element that meets the condition.
\<close>

fun cond_holds :: "cond \<Rightarrow> bson \<Rightarrow> bool" where
  "cond_holds (Regex p opts) (String s) = regex_match p opts s"
| "cond_holds (Regex p opts) (Array xs) = list_ex (regex_match p opts) xs"
| "cond_holds (Regex p opts) (Double _) = False"
| "cond_holds (ElemMatch c) (Array xs) = list_ex (\<lambda>x. cond_holds c (String x)) xs"
| "cond_holds (ElemMatch c) (String _) = False"
| "cond_holds (ElemMatch c) (Double _) = False"

fun clause_holds :: "('a \<Rightarrow> string \<Rightarrow> bson option) \<Rightarrow> clause \<Rightarrow> 'a \<Rightarrow> bool" where
  "clause_holds look (Field k c) x = (case look x k of None \<Rightarrow> False | Some v \<Rightarrow> cond_holds c v)"
| "clause_holds look (Or cs) x = list_ex (\<lambda>c. clause_holds look c x) cs"

fun cond_compiles :: "cond \<Rightarrow> bool" where
  "cond_compiles (Regex p opts) = (compile p \<noteq> None)"
| "cond_compiles (ElemMatch c) = cond_compiles c"

fun clause_compiles :: "clause \<Rightarrow> bool" where
  "clause_compiles (Field k c) = cond_compiles c"
| "clause_compiles (Or cs) = list_all clause_compiles cs"

text \<open>
  Modelled from the spec: \<open>get_documents\<close> of \<open>database.py\<close>, which is not among the
  sources. The spec gives it as \<open>find(collection, filter, sort?) \<rightarrow> sequence of document\<close>:
  the documents of the collection that meet every clause of the filter, in store
  order, at most \<open>limit\<close> of them when a limit is given. The result is \<open>None\<close> when a
  pattern of the filter is outside the modelled fragment of regular expressions.
\<close>

definition get_documents ::
  "(store \<Rightarrow> 'a document list) \<Rightarrow> ('a \<Rightarrow> string \<Rightarrow> bson option) \<Rightarrow>
   db \<Rightarrow> clause list \<Rightarrow> nat option \<Rightarrow> (error + 'a document list) option" where
  "get_documents coll look db filt limit =
     (if \<not> list_all clause_compiles filt then None
      else case db of
             None \<Rightarrow> Some (Inl ServerError)
           | Some s \<Rightarrow>
               (let docs = filter (\<lambda>d. list_all (\<lambda>c. clause_holds look c (body d)) filt) (coll s)
                in Some (Inr (case limit of None \<Rightarrow> docs | Some n \<Rightarrow> take n docs))))"

text \<open>
  \<open>if city:\<close> holds for a parameter that was given and is not the empty string. The
  parameters \<open>city\<close> and \<open>type\<close> are \<open>city_arg\<close> and \<open>type_arg\<close> here.
\<close>

definition truthy :: "string option \<Rightarrow> bool" where
  "truthy x = (case x of None \<Rightarrow> False | Some v \<Rightarrow> v \<noteq> [])"

definition list_places ::
  "db \<Rightarrow> string option \<Rightarrow> string option \<Rightarrow> string option \<Rightarrow>
   (error + Place serialized list) option" where
  "list_places db city_arg type_arg q =
     (case db of
        None \<Rightarrow> Some (Inl (HTTPException 500 ''Database not available''))
      | Some s \<Rightarrow>
          (let filt = [];
               filt = (if truthy city_arg
                       then filt @ [Field ''city'' (Regex (''^'' @ the city_arg @ ''$'') ''i'')]
                       else filt);
               filt = (if truthy type_arg
                       then filt @ [Field ''type'' (Regex (''^'' @ the type_arg @ ''$'') ''i'')]
                       else filt);
               filt = (if truthy q
                       then filt @ [Or [Field ''name'' (Regex (the q) ''i''),
                                        Field ''description'' (Regex (the q) ''i''),
                                        Field ''main_tags'' (ElemMatch (Regex (the q) ''i''))]]
                       else filt)
           in case get_documents place place_field db filt None of
                None \<Rightarrow> None
              | Some (Inl e) \<Rightarrow> Some (Inl e)
              | Some (Inr docs) \<Rightarrow> Some (Inr (map serialize_doc docs))))"

subsection \<open>The directory filter as the specification words it\<close>

text \<open>
  Equal without regard to case, and containing without regard to case, with the case
  folding of the model. A parameter that was left out, or is the empty string, asks
  for nothing.
\<close>

definition equals_ci :: "string \<Rightarrow> string \<Rightarrow> bool" where
  "equals_ci a b = (map lower a = map lower b)"

definition contains_ci :: "string \<Rightarrow> string \<Rightarrow> bool" where
  "contains_ci subject q = sublist (map lower q) (map lower subject)"

definition spec_selected :: "string option \<Rightarrow> string option \<Rightarrow> string option \<Rightarrow> Place \<Rightarrow> bool" where
  "spec_selected city_arg type_arg q p =
     ((case city_arg of None \<Rightarrow> True | Some c \<Rightarrow> c = [] \<or> equals_ci (city p) c)
      \<and> (case type_arg of None \<Rightarrow> True | Some t \<Rightarrow> t = [] \<or> equals_ci (place_type p) t)
      \<and> (case q of
           None \<Rightarrow> True
         | Some x \<Rightarrow>
             contains_ci (place_name p) x \<or> contains_ci (description p) x
             \<or> list_ex (\<lambda>tag. contains_ci tag x) (main_tags p)))"

text \<open>
  \<open>plain\<close>: no character of the parameter means anything special in a regular
  expression. \<open>ends_with_LF\<close>: the stored text ends in a line feed.
\<close>

definition plain :: "string option \<Rightarrow> bool" where
  "plain x =
     (case x of
        None \<Rightarrow> True
      | Some v \<Rightarrow> list_all (\<lambda>c. c \<notin> set (''.^$'' @ special)) v)"

definition ends_with_LF :: "string \<Rightarrow> bool" where
  "ends_with_LF s = (s \<noteq> [] \<and> last s = LF)"

subsection \<open>The stores the service builds\<close>

text \<open>
  \<open>canonical\<close>: the identifier is written as the service prints it, in lower case (or
  is no identifier at all).
\<close>

definition canonical :: "string \<Rightarrow> bool" where
  "canonical pid = (case ObjectId pid of None \<Rightarrow> True | Some i \<Rightarrow> str_oid i = pid)"

inductive reachable :: "store \<Rightarrow> bool" where
  reach_fresh: "reachable (fresh_store n)"
| reach_seed: "reachable s \<Longrightarrow> seed_sample (Some s) now = (r, Some s') \<Longrightarrow> reachable s'"
| reach_review:
    "reachable s \<Longrightarrow> canonical pid \<Longrightarrow> post_review (Some s) now pid raw = (r, Some s') \<Longrightarrow>
     reachable s'"
| reach_quiz: "reachable s \<Longrightarrow> evaluate_quiz (Some s) now ans uid = (r, Some s') \<Longrightarrow> reachable s'"
| reach_signup: "reachable s \<Longrightarrow> signup (Some s) now payload = (r, Some s') \<Longrightarrow> reachable s'"
| reach_save: "reachable s \<Longrightarrow> save_place (Some s) uid pid = (r, Some s') \<Longrightarrow> reachable s'"

subsection \<open>The invariant of the safety scores\<close>



subsection \<open>Example data\<close>


definition visitor :: NewReview where
  "visitor = \<lparr>new_user_id = ''u1'', new_rating = 4, new_safety_tags = [''well-lit''],
     new_comment = None, new_night_safe = True, new_harassment = False\<rparr>"

definition review_doc :: "ObjectId \<Rightarrow> nat \<Rightarrow> string \<Rightarrow> int \<Rightarrow> Review document" where
  "review_doc i t pid r = \<lparr>oid = i, created_at = t,
     body = \<lparr>user_id = ''u1'', place_id = pid, rating = r, safety_tags = [], comment = None,
       night_safe = True, harassment = False\<rparr>\<rparr>"

definition hotel :: "Place document" where
  "hotel = \<lparr>oid = 1, created_at = 0,
     body = \<lparr>place_name = ''Aurora Boutique Hotel'', city = ''Lisbon'', place_type = ''hotel'',
       safety_score = 47 / 10,
       description = ''Women-staffed, well-lit area; guests report safe returns at night.'',
       main_tags = [''women-staffed'', ''well-lit'', ''central'']\<rparr>\<rparr>"

definition hotel_id :: string where
  "hotel_id = ''000000000000000000000001''"


definition reviewed :: store where
  "reviewed = \<lparr>user = [],
     place = [hotel\<lparr>body := (body hotel)\<lparr>safety_score := 433 / 100\<rparr>\<rparr>],
     review = [review_doc 2 10 hotel_id 5, review_doc 3 30 hotel_id 4,
               review_doc 4 20 hotel_id 4],
     quizresult = [], next_oid = 5\<rparr>"

definition ana_form :: Signup where
  "ana_form = \<lparr>signup_name = ''Ana'', signup_email = ''ana@example.org'',
     signup_photo = None\<rparr>"

definition ana :: "string list \<Rightarrow> User document" where
  "ana saved = \<lparr>oid = 1, created_at = 10,
     body = \<lparr>user_name = ''Ana'', email = ''ana@example.org'', photo = None,
       saved_places = saved, saved_cities = []\<rparr>\<rparr>"

definition one_user :: "string list \<Rightarrow> store" where
  "one_user saved =
     \<lparr>user = [ana saved], place = [], review = [], quizresult = [], next_oid = 2\<rparr>"

definition garden :: "Place document" where
  "garden = \<lparr>oid = 2, created_at = 0,
     body = \<lparr>place_name = ''Garden District'', city = ''Singapore'',
       place_type = ''neighborhood'', safety_score = 49 / 10,
       description = ''Exceptionally safe at night; strong street presence and cameras.'',
       main_tags = [''night-safe'', ''family-friendly'', ''clean'']\<rparr>\<rparr>"

definition olive :: "Place document" where
  "olive = \<lparr>oid = 3, created_at = 0,
     body = \<lparr>place_name = ''Olive & Thyme'', city = ''Barcelona'', place_type = ''restaurant'',
       safety_score = 44 / 10,
       description = ''Busy staff presence, friendly crowd; avoid very late weekends.'',
       main_tags = [''staff-present'', ''friendly'', ''busy'']\<rparr>\<rparr>"

definition seeded :: store where
  "seeded = \<lparr>user = [], place = [hotel, garden, olive], review = [], quizresult = [],
     next_oid = 4\<rparr>"


section \<open>Properties\<close>

subsection \<open>ObjectId strings\<close>

lemma length_hex_string: "length (hex_string k n) = k"
  by (induction k arbitrary: n) simp_all

lemma hex_value_hex_digit: "d < 16 \<Longrightarrow> hex_value (hex_digit d) = Some d"
proof -
  assume "d < 16"
  then have "d \<in> {0, 1, 2, 3, 4, 5, 6, 7, 8, 9, 10, 11, 12, 13, 14, 15}"
    by (simp; arith)
  then show ?thesis
    by (elim insertE emptyE; simp add: hex_digit_def hex_value_def)
qed

lemma fromhex_append:
  "fromhex acc (xs @ ys) = (case fromhex acc xs of None \<Rightarrow> None | Some a \<Rightarrow> fromhex a ys)"
  by (induction xs arbitrary: acc) (simp_all split: option.splits)

lemma fromhex_hex_string: "fromhex acc (hex_string k n) = Some (acc * 16 ^ k + n mod 16 ^ k)"
proof (induction k arbitrary: n)
  case 0
  show ?case by simp
next
  case (Suc k)
  have "(n div 16) mod 16 ^ k * 16 + n mod 16 = n mod (16 * 16 ^ k)"
    by (simp add: mod_mult2_eq mult.commute)
  then show ?case
    by (simp add: fromhex_append Suc hex_value_hex_digit algebra_simps)
qed

lemma ObjectId_str_oid: "ObjectId (str_oid w) = Some w"
proof -
  have "unat w < 2 ^ 96"
    using unsigned_less [of w] by simp
  then have "unat w mod 16 ^ 24 = unat w"
    by simp
  then show ?thesis
    by (simp add: ObjectId_def str_oid_def length_hex_string fromhex_hex_string)
qed

lemma objid_str_oid: "objid (str_oid w) = Inr w"
  by (simp add: objid_def ObjectId_str_oid)


subsection \<open>The example data, evaluated\<close>

lemma ObjectId_hotel_id: "ObjectId hotel_id = Some 1"
  by (simp add: ObjectId_def hex_value_def hotel_id_def)





lemma ana_signs_up:
  "signup (Some (fresh_store 1)) 10 ana_form = (Inr (Some (serialize_doc (ana []))), Some (one_user []))"
  by (simp add: signup_def fresh_store_def ana_form_def find_one_def create_document_def
      insert_one_def objid_str_oid serialize_def ana_def one_user_def)

lemma reviews_listed:
  "list_reviews (Some reviewed) hotel_id =
     Inr (map serialize_doc
       [review_doc 3 30 hotel_id 4, review_doc 4 20 hotel_id 4, review_doc 2 10 hotel_id 5])"
  by (simp add: list_reviews_def reviewed_def review_doc_def sort_desc_def)

lemma ana_found: "find_one (\<lambda>d. oid d = 1) (user (one_user [])) = Some (ana [])"
  by (simp add: one_user_def find_one_def ana_def)

lemma ana_saves:
  "save_place (Some (one_user [])) hotel_id ''p1'' =
     (Inr (Some (serialize_doc (ana [''p1'']))), Some (one_user [''p1'']))"
  by (simp add: save_place_def objid_def ObjectId_hotel_id one_user_def ana_def find_one_def
      addToSet_def serialize_def Let_def)

lemma str_oid_1: "str_oid 1 = ''000000000000000000000001''"
  by code_simp

subsection \<open>The quiz\<close>

lemma quiz_score_spec: "quiz_score ans = spec_score ans"
  by (simp add: quiz_score_def spec_score_def Let_def)

lemma quiz_persona_spec: "quiz_persona (quiz_score ans) = spec_outcome ans"
  by (simp add: quiz_persona_def spec_outcome_def quiz_score_spec)

lemma fearless_outcome:
  "spec_outcome fearless = (''Trailblazer'', [''Singapore'', ''Lisbon'', ''Copenhagen''])"
  by (simp add: spec_outcome_def spec_score_def fearless_def)

lemma wary_outcome:
  "spec_outcome wary = (''Cautious Explorer'', [''Reykjavik'', ''Zurich'', ''Taipei''])"
  by (simp add: spec_outcome_def spec_score_def wary_def)

lemma evaluate_quiz_returns:
  "\<not> list_ex (\<lambda>d. oid d = next_oid s) (quizresult s) \<Longrightarrow>
   fst (evaluate_quiz (Some s) now ans uid) =
     Inr \<lparr>resp_id = str_oid (next_oid s), resp_persona = fst (spec_outcome ans),
          resp_recommendations = snd (spec_outcome ans)\<rparr>"
  by (simp add: evaluate_quiz_def create_document_def insert_one_def Let_def
      quiz_persona_spec split: prod.splits)

lemma evaluate_quiz_Inr:
  "evaluate_quiz db now ans uid = (Inr r, db') \<Longrightarrow>
     (resp_persona r, resp_recommendations r) = spec_outcome ans"
  by (auto simp: evaluate_quiz_def Let_def quiz_persona_spec split: prod.splits sum.splits)

text \<open>
  Claim C3. \<open>evaluate_quiz\<close> is a function of the five answers alone: its score is the
  sum the specification gives (2 or 1 for the comfort level, 2 or 1 for the solo
  experience, 2 for comfortable night travel, 1 when crowds are no trigger, 1 for metro
  or ride-share), 6 and more is a Trailblazer, 4 and more a Planner, less a Cautious
  Explorer, each with its fixed list; whatever the store, the time and the user, the
  response carries that persona and that list, and the two inputs of testable property
  6 give Trailblazer and Cautious Explorer. The handler answers whenever the identifier
  its insert is given is unused.
\<close>

theorem evaluate_quiz_deterministic:
  assumes "\<not> list_ex (\<lambda>d. oid d = next_oid s) (quizresult s)"
  shows "quiz_score ans = spec_score ans
    \<and> fst (evaluate_quiz (Some s) now ans uid) =
        Inr \<lparr>resp_id = str_oid (next_oid s), resp_persona = fst (spec_outcome ans),
             resp_recommendations = snd (spec_outcome ans)\<rparr>
    \<and> fst (evaluate_quiz (Some s) now fearless uid) =
        Inr \<lparr>resp_id = str_oid (next_oid s), resp_persona = ''Trailblazer'',
             resp_recommendations = [''Singapore'', ''Lisbon'', ''Copenhagen'']\<rparr>
    \<and> fst (evaluate_quiz (Some s) now wary uid) =
        Inr \<lparr>resp_id = str_oid (next_oid s), resp_persona = ''Cautious Explorer'',
             resp_recommendations = [''Reykjavik'', ''Zurich'', ''Taipei'']\<rparr>"
  using assms
  by (simp add: quiz_score_spec evaluate_quiz_returns fearless_outcome wary_outcome)

theorem evaluate_quiz_deterministic_witness:
  "fst (evaluate_quiz (Some (fresh_store 1)) 0 fearless None) =
     Inr \<lparr>resp_id = ''000000000000000000000001'', resp_persona = ''Trailblazer'',
          resp_recommendations = [''Singapore'', ''Lisbon'', ''Copenhagen'']\<rparr>
   \<and> fst (evaluate_quiz (Some (fresh_store 1)) 0 wary None) =
     Inr \<lparr>resp_id = ''000000000000000000000001'', resp_persona = ''Cautious Explorer'',
          resp_recommendations = [''Reykjavik'', ''Zurich'', ''Taipei'']\<rparr>"
  using evaluate_quiz_deterministic [of "fresh_store 1" fearless 0 None]
  by (simp add: fresh_store_def str_oid_1 fearless_outcome)

subsection \<open>Finding and updating documents\<close>

lemma find_one_None_iff: "find_one P coll = None \<longleftrightarrow> \<not> list_ex P coll"
  by (auto simp: find_one_def find_None_iff list_ex_iff)


lemma find_one_append:
  "find_one P (xs @ ys) = (case find_one P xs of None \<Rightarrow> find_one P ys | Some d \<Rightarrow> Some d)"
  by (induction xs) (simp_all add: find_one_def)

lemma update_one_unmatched: "\<not> list_ex P coll \<Longrightarrow> update_one P f coll = coll"
  by (induction coll) simp_all


lemma find_one_update_one:
  "find_one (\<lambda>d. oid d = i) (update_one (\<lambda>d. oid d = i) f coll) =
     map_option (\<lambda>d. d\<lparr>body := f (body d)\<rparr>) (find_one (\<lambda>d. oid d = i) coll)"
  by (induction coll) (simp_all add: find_one_def)

lemma update_one_fixed:
  "find_one P coll = Some d \<Longrightarrow> f (body d) = body d \<Longrightarrow> update_one P f coll = coll"
  by (induction coll) (auto simp: find_one_def split: if_splits)

subsection \<open>Reviews that are refused\<close>

lemma ObjectId_7: "ObjectId ''000000000000000000000007'' = Some 7"
  by (simp add: ObjectId_def hex_value_def)




lemma add_review_bad_rating:
  "new_rating payload < 1 \<or> 5 < new_rating payload \<Longrightarrow>
   isl (fst (add_review db now pid payload)) \<and> snd (add_review db now pid payload) = db"
  by (auto simp: add_review_def Review_init_def split: option.splits sum.splits)




text \<open>
  Claim C5. A review request whose rating is below 1 or above 5 is refused with a
  validation error before the handler runs, and the database is left as it was. Were
  the handler reached with such a rating, it would fail as well and write nothing:
  every check of it comes before its first write.
\<close>

theorem post_review_rating_bound:
  assumes "new_rating raw < 1 \<or> 5 < new_rating raw"
  shows "post_review db now pid raw = (Inl RequestValidationError, db)
    \<and> isl (fst (add_review db now pid raw)) \<and> snd (add_review db now pid raw) = db"
  using assms add_review_bad_rating [of raw db now pid]
  by (auto simp: post_review_def NewReview_validate_def)

theorem post_review_rating_bound_witness:
  "post_review (Some (fresh_store 1)) 0 ''000000000000000000000007'' (visitor\<lparr>new_rating := 0\<rparr>) =
     (Inl RequestValidationError, Some (fresh_store 1))
   \<and> post_review (Some (fresh_store 1)) 0 ''000000000000000000000007'' (visitor\<lparr>new_rating := 6\<rparr>) =
     (Inl RequestValidationError, Some (fresh_store 1))"
  using post_review_rating_bound [of "visitor\<lparr>new_rating := 0\<rparr>" "Some (fresh_store 1)" 0
      "''000000000000000000000007''"]
    post_review_rating_bound [of "visitor\<lparr>new_rating := 6\<rparr>" "Some (fresh_store 1)" 0
      "''000000000000000000000007''"]
  by (simp add: visitor_def)

subsection \<open>Reviews that are accepted\<close>

lemma ratings_of_place_update [simp]: "ratings_of (s\<lparr>place := ps\<rparr>) pid = ratings_of s pid"
  by (simp add: ratings_of_def)

lemma ratings_of_next_oid_update [simp]: "ratings_of (s\<lparr>next_oid := n\<rparr>) pid = ratings_of s pid"
  by (simp add: ratings_of_def)







subsection \<open>Signing up\<close>

lemma signup_existing:
  "find_one (\<lambda>d. email (body d) = signup_email payload) (user s) = Some e \<Longrightarrow>
   signup (Some s) now payload = (Inr (Some (serialize_doc e)), Some s)"
  by (simp add: signup_def serialize_def)

lemma signup_new:
  assumes "find_one (\<lambda>d. email (body d) = signup_email payload) (user s) = None"
    and "\<not> list_ex (\<lambda>d. oid d = next_oid s) (user s)"
  shows "signup (Some s) now payload =
    (Inr (Some (serialize_doc
       \<lparr>oid = next_oid s, created_at = now,
        body = \<lparr>user_name = signup_name payload, email = signup_email payload,
                photo = signup_photo payload, saved_places = [], saved_cities = []\<rparr>\<rparr>)),
     Some (s\<lparr>user := user s @
       [\<lparr>oid = next_oid s, created_at = now,
         body = \<lparr>user_name = signup_name payload, email = signup_email payload,
                 photo = signup_photo payload, saved_places = [], saved_cities = []\<rparr>\<rparr>],
       next_oid := next_oid s + 1\<rparr>))"
proof -
  have "find_one (\<lambda>d. oid d = next_oid s) (user s) = None"
    using assms(2) by (simp add: find_one_None_iff)
  then show ?thesis
    using assms
    by (simp add: signup_def create_document_def insert_one_def objid_str_oid
        find_one_append serialize_def)
       (simp add: find_one_def)
qed

lemma signup_refused:
  assumes "find_one (\<lambda>d. email (body d) = signup_email payload) (user s) = None"
    and "list_ex (\<lambda>d. oid d = next_oid s) (user s)"
  shows "signup (Some s) now payload = (Inl ServerError, Some s)"
  using assms by (simp add: signup_def create_document_def insert_one_def)

text \<open>
  Claim C7. When \<open>signup\<close> has answered for an email, a second \<open>signup\<close> with that
  email gives the same answer, the same user with the same identifier, and leaves the
  database as the first call left it: no second User document. When a user with exactly
  that email is already stored, \<open>signup\<close> returns that document and inserts nothing.
\<close>

theorem signup_idempotent:
  assumes "signup (Some s) now payload = (Inr r1, db1)"
    and "signup_email payload' = signup_email payload"
  shows "signup db1 now' payload' = (Inr r1, db1) \<and> r1 \<noteq> None
    \<and> (\<forall>e. find_one (\<lambda>d. email (body d) = signup_email payload) (user s) = Some e \<longrightarrow>
          r1 = Some (serialize_doc e) \<and> db1 = Some s)"
proof (cases "find_one (\<lambda>d. email (body d) = signup_email payload) (user s)")
  case (Some e)
  from signup_existing [OF Some, of now] assms(1)
  have first: "r1 = Some (serialize_doc e)" "db1 = Some s"
    by simp_all
  have "signup (Some s) now' payload' = (Inr (Some (serialize_doc e)), Some s)"
    using Some assms(2) by (intro signup_existing) simp
  then show ?thesis
    using first Some by simp
next
  case None
  let ?d = "\<lparr>oid = next_oid s, created_at = now,
        body = \<lparr>user_name = signup_name payload, email = signup_email payload,
                photo = signup_photo payload, saved_places = [], saved_cities = []\<rparr>\<rparr>"
  let ?s1 = "s\<lparr>user := user s @ [?d], next_oid := next_oid s + 1\<rparr>"
  have free: "\<not> list_ex (\<lambda>d. oid d = next_oid s) (user s)"
    using signup_refused [OF None, of now] assms(1) by auto
  from signup_new [OF None free, of now] assms(1)
  have first: "r1 = Some (serialize_doc ?d)" "db1 = Some ?s1"
    by simp_all
  have "find_one (\<lambda>d. email (body d) = signup_email payload') (user ?s1) = Some ?d"
    using None assms(2) by (simp add: find_one_append) (simp add: find_one_def)
  from signup_existing [OF this, of now']
  show ?thesis
    using first None by simp
qed

theorem signup_idempotent_witness:
  "signup (Some (fresh_store 1)) 10 ana_form = (Inr (Some (serialize_doc (ana []))), Some (one_user []))
   \<and> signup (Some (one_user [])) 20 (ana_form\<lparr>signup_name := ''Ana B.''\<rparr>) =
       (Inr (Some (serialize_doc (ana []))), Some (one_user []))
   \<and> id_str (serialize_doc (ana [])) = ''000000000000000000000001''"
  using signup_idempotent [OF ana_signs_up, of "ana_form\<lparr>signup_name := ''Ana B.''\<rparr>" 20]
    ana_signs_up
  by (simp add: serialize_doc_def ana_def str_oid_1)

subsection \<open>Listing reviews\<close>

lemma sort_desc_newest_first:
  "sorted_wrt (\<lambda>a b. key b \<le> key a) (sort_desc key xs)"
proof -
  have "sorted (map (\<lambda>x. - int (key x)) (sort_desc key xs))"
    by (simp add: sort_desc_def)
  then show ?thesis
    by (simp add: sorted_map)
qed

lemma mset_sort_desc: "mset (sort_desc key xs) = mset xs"
  by (simp add: sort_desc_def)

text \<open>
  Claim C8. With the database available \<open>list_reviews\<close> never fails: it returns the
  Review documents whose \<open>place_id\<close> is the one asked for, each once, newest first; when
  none matches, for a \<open>place_id\<close> of no Place too, it returns the empty list.
\<close>

theorem list_reviews_newest_first:
  "(case list_reviews (Some s) pid of
      Inl e \<Rightarrow> False
    | Inr rs \<Rightarrow>
        mset rs = mset (map serialize_doc (filter (\<lambda>r. place_id (body r) = pid) (review s)))
        \<and> sorted_wrt (\<lambda>a b. stamped b \<le> stamped a) rs
        \<and> (\<not> list_ex (\<lambda>r. place_id (body r) = pid) (review s) \<longrightarrow> rs = []))"
proof -
  let ?docs = "sort_desc created_at (filter (\<lambda>r. place_id (body r) = pid) (review s))"
  have res: "list_reviews (Some s) pid = Inr (map serialize_doc ?docs)"
    by (simp add: list_reviews_def)
  have "sorted_wrt (\<lambda>a b. created_at b \<le> created_at a) ?docs"
    by (rule sort_desc_newest_first)
  then have sorted: "sorted_wrt (\<lambda>a b. stamped b \<le> stamped a) (map serialize_doc ?docs)"
    by (simp add: sorted_wrt_map serialize_doc_def)
  have perm: "mset (map serialize_doc ?docs) =
      mset (map serialize_doc (filter (\<lambda>r. place_id (body r) = pid) (review s)))"
    by (simp add: mset_sort_desc)
  have "\<not> list_ex (\<lambda>r. place_id (body r) = pid) (review s) \<longrightarrow> map serialize_doc ?docs = []"
    by (auto simp: list_ex_iff filter_empty_conv sort_desc_def)
  then show ?thesis
    using res sorted perm by simp
qed

theorem list_reviews_newest_first_witness:
  "list_reviews (Some reviewed) hotel_id =
     Inr (map serialize_doc
       [review_doc 3 30 hotel_id 4, review_doc 4 20 hotel_id 4, review_doc 2 10 hotel_id 5])
   \<and> list_reviews (Some reviewed) ''nowhere'' = Inr []"
  using list_reviews_newest_first [where s = reviewed and pid = "''nowhere''"] reviews_listed
  by (simp add: reviewed_def review_doc_def hotel_id_def split: sum.splits)

subsection \<open>Saved places\<close>

lemma save_place_found:
  assumes "ObjectId uid = Some i" and "find_one (\<lambda>d. oid d = i) (user s) = Some u"
  shows "save_place (Some s) uid pid =
    (Inr (Some (serialize_doc (u\<lparr>body := (body u)\<lparr>saved_places := addToSet (saved_places (body u)) pid\<rparr>\<rparr>))),
     Some (s\<lparr>user := update_one (\<lambda>d. oid d = i)
              (\<lambda>x. x\<lparr>saved_places := addToSet (saved_places x) pid\<rparr>) (user s)\<rparr>))"
  using assms
  by (simp add: save_place_def objid_def Let_def find_one_update_one serialize_def)

lemma save_place_present:
  assumes "ObjectId uid = Some i" and "find_one (\<lambda>d. oid d = i) (user s) = Some u"
    and "pid \<in> set (saved_places (body u))"
  shows "save_place (Some s) uid pid = (Inr (Some (serialize_doc u)), Some s)"
proof -
  have "update_one (\<lambda>d. oid d = i) (\<lambda>x. x\<lparr>saved_places := addToSet (saved_places x) pid\<rparr>) (user s)
      = user s"
    using assms(2,3) by (intro update_one_fixed [where d = u]) (simp_all add: addToSet_def)
  then show ?thesis
    using assms by (simp add: save_place_found addToSet_def)
qed

lemma addToSet_mem: "x \<in> set (addToSet xs x)"
  by (simp add: addToSet_def)

lemma set_addToSet: "set (addToSet xs x) = insert x (set xs)"
  by (auto simp: addToSet_def)

lemma count_addToSet:
  "count_list xs x \<le> 1 \<Longrightarrow> count_list (addToSet xs x) x = 1"
proof (cases "x \<in> set xs")
  case True
  then have "count_list xs x \<noteq> 0"
    by (simp add: count_list_0_iff)
  moreover assume "count_list xs x \<le> 1"
  ultimately show ?thesis
    using True by (simp add: addToSet_def)
next
  case False
  then show ?thesis
    by (simp add: addToSet_def count_list_0_iff)
qed

text \<open>
  In every store the service builds, no user has a place saved twice: \<open>signup\<close> starts
  the list empty and \<open>$addToSet\<close> keeps it free of repetitions.
\<close>

lemma update_one_keeps:
  assumes "\<And>d. d \<in> set coll \<Longrightarrow> Q (body d)" and "\<And>b. Q b \<Longrightarrow> Q (f b)"
  shows "d \<in> set (update_one P f coll) \<Longrightarrow> Q (body d)"
  using assms(1)
proof (induction coll)
  case Nil
  then show ?case by simp
next
  case (Cons x xs)
  then show ?case
    using assms(2) by (auto split: if_splits)
qed

lemma distinct_addToSet: "distinct xs \<Longrightarrow> distinct (addToSet xs x)"
  by (simp add: addToSet_def)

lemma seed_loop_user:
  "seed_loop (Some s) now ps ids = (r, Some s') \<Longrightarrow> user s' = user s"
proof (induction ps arbitrary: s ids)
  case Nil
  then show ?case by simp
next
  case (Cons p ps)
  show ?case
  proof (cases "list_ex (\<lambda>d. oid d = next_oid s) (place s)")
    case True
    then show ?thesis
      using Cons.prems by (simp add: create_document_def insert_one_def)
  next
    case False
    then have "seed_loop
        (Some (s\<lparr>place := place s @ [\<lparr>oid = next_oid s, created_at = now, body = p\<rparr>],
           next_oid := next_oid s + 1\<rparr>)) now ps (ids @ [str_oid (next_oid s)]) = (r, Some s')"
      using Cons.prems by (simp add: create_document_def insert_one_def)
    from Cons.IH [OF this] show ?thesis by simp
  qed
qed

lemma seed_sample_user: "seed_sample (Some s) now = (r, Some s') \<Longrightarrow> user s' = user s"
  by (cases "built samples") (auto simp: seed_sample_def dest: seed_loop_user)

lemma post_review_user: "post_review (Some s) now pid raw = (r, Some s') \<Longrightarrow> user s' = user s"
  by (auto simp: post_review_def add_review_def create_document_def insert_one_def Let_def
      split: sum.splits option.splits if_splits)

lemma evaluate_quiz_user:
  "evaluate_quiz (Some s) now ans uid = (r, Some s') \<Longrightarrow> user s' = user s"
  by (auto simp: evaluate_quiz_def create_document_def insert_one_def Let_def
      split: prod.splits if_splits)

lemma signup_users:
  "signup (Some s) now payload = (r, Some s') \<Longrightarrow>
   user s' = user s \<or> (\<exists>d. user s' = user s @ [d] \<and> saved_places (body d) = [])"
  by (auto simp: signup_def create_document_def insert_one_def objid_def
      split: option.splits if_splits)

lemma save_place_users:
  "save_place (Some s) uid pid = (r, Some s') \<Longrightarrow>
   user s' = user s \<or>
   (\<exists>i. user s' = update_one (\<lambda>d. oid d = i)
             (\<lambda>u. u\<lparr>saved_places := addToSet (saved_places u) pid\<rparr>) (user s))"
  by (auto simp: save_place_def Let_def split: sum.splits)

lemma reachable_saved_places_distinct:
  "reachable s \<Longrightarrow> u \<in> set (user s) \<Longrightarrow> distinct (saved_places (body u))"
proof (induction arbitrary: u rule: reachable.induct)
  case (reach_fresh n)
  then show ?case by (simp add: fresh_store_def)
next
  case (reach_seed s now r s')
  then show ?case using seed_sample_user by metis
next
  case (reach_review s pid now raw r s')
  then show ?case using post_review_user by metis
next
  case (reach_quiz s now ans uid r s')
  then show ?case using evaluate_quiz_user by metis
next
  case (reach_signup s now payload r s')
  from signup_users [OF reach_signup.hyps(2)] reach_signup.IH reach_signup.prems
  show ?case by auto
next
  case (reach_save s uid pid r s')
  from save_place_users [OF reach_save.hyps(2)]
  show ?case
  proof
    assume "user s' = user s"
    then show ?thesis using reach_save.IH reach_save.prems by simp
  next
    assume "\<exists>i. user s' = update_one (\<lambda>d. oid d = i)
             (\<lambda>u. u\<lparr>saved_places := addToSet (saved_places u) pid\<rparr>) (user s)"
    then obtain i where "user s' = update_one (\<lambda>d. oid d = i)
             (\<lambda>u. u\<lparr>saved_places := addToSet (saved_places u) pid\<rparr>) (user s)"
      by blast
    then have "u \<in> set (update_one (\<lambda>d. oid d = i)
             (\<lambda>u. u\<lparr>saved_places := addToSet (saved_places u) pid\<rparr>) (user s))"
      using reach_save.prems by simp
    then show ?thesis
      by (rule update_one_keeps [where Q = "\<lambda>b. distinct (saved_places b)", rotated 2])
        (simp_all add: reach_save.IH distinct_addToSet)
  qed
qed

lemma distinct_count_le_1: "distinct xs \<Longrightarrow> count_list xs x \<le> 1"
  by (induction xs) (auto simp: count_list_0_iff)

text \<open>
  Claim C9. For an existing user whose \<open>saved_places\<close> holds \<open>place_id\<close> at most once (as
  it does in every store the service builds), two \<open>save_place\<close> calls with that
  \<open>place_id\<close> leave it in \<open>saved_places\<close> exactly once: the second call changes nothing
  and answers as the first; the first adds the identifier to the set of saved places,
  and changes nothing when it is there already.
\<close>

theorem save_place_idempotent:
  assumes "ObjectId uid = Some i"
    and "find_one (\<lambda>d. oid d = i) (user s) = Some u"
    and "count_list (saved_places (body u)) pid \<le> 1"
    and "save_place (Some s) uid pid = (r1, db1)"
    and "save_place db1 uid pid = (r2, db2)"
  shows "db2 = db1 \<and> r2 = r1
    \<and> (\<exists>s1 u1. db1 = Some s1 \<and> r1 = Inr (Some (serialize_doc u1))
          \<and> find_one (\<lambda>d. oid d = i) (user s1) = Some u1
          \<and> count_list (saved_places (body u1)) pid = 1
          \<and> set (saved_places (body u1)) = insert pid (set (saved_places (body u))))
    \<and> (pid \<in> set (saved_places (body u)) \<longrightarrow> db1 = Some s)"
proof -
  let ?g = "\<lambda>x. x\<lparr>saved_places := addToSet (saved_places x) pid\<rparr>"
  let ?u1 = "u\<lparr>body := ?g (body u)\<rparr>"
  let ?s1 = "s\<lparr>user := update_one (\<lambda>d. oid d = i) ?g (user s)\<rparr>"
  have first: "r1 = Inr (Some (serialize_doc ?u1))" "db1 = Some ?s1"
    using save_place_found [OF assms(1,2), of pid] assms(4) by simp_all
  have found1: "find_one (\<lambda>d. oid d = i) (user ?s1) = Some ?u1"
    using assms(2) by (simp add: find_one_update_one)
  have "pid \<in> set (saved_places (body ?u1))"
    by (simp add: addToSet_mem)
  from save_place_present [OF assms(1) found1 this]
  have second: "r2 = r1" "db2 = db1"
    using assms(5) first by simp_all
  have once: "count_list (saved_places (body ?u1)) pid = 1"
    using assms(3) by (simp add: count_addToSet)
  have union: "set (saved_places (body ?u1)) = insert pid (set (saved_places (body u)))"
    by (simp add: set_addToSet)
  have same: "pid \<in> set (saved_places (body u)) \<longrightarrow> db1 = Some s"
    using save_place_present [OF assms(1,2)] assms(4) by auto
  show ?thesis
    using first second found1 once union same by blast
qed

theorem save_place_idempotent_witness:
  "save_place (Some (one_user [])) hotel_id ''p1'' =
     (Inr (Some (serialize_doc (ana [''p1'']))), Some (one_user [''p1'']))
   \<and> save_place (Some (one_user [''p1''])) hotel_id ''p1'' =
     (Inr (Some (serialize_doc (ana [''p1'']))), Some (one_user [''p1'']))"
  using save_place_idempotent [OF ObjectId_hotel_id ana_found _ ana_saves,
      of "fst (save_place (Some (one_user [''p1''])) hotel_id ''p1'')"
         "snd (save_place (Some (one_user [''p1''])) hotel_id ''p1'')"]
    ana_saves
  by (simp add: ana_def prod_eq_iff)

text \<open>
  Claim C10. For a well-formed \<open>user_id\<close> of no stored User, \<open>save_place\<close> changes no
  document and answers with the serialization of an absent document, \<open>None\<close>: neither a
  User nor an error.
\<close>

theorem save_place_unknown_user:
  assumes "ObjectId uid = Some i" and "\<not> list_ex (\<lambda>d. oid d = i) (user s)"
  shows "save_place (Some s) uid pid = (Inr None, Some s)"
  using assms
  by (simp add: save_place_def objid_def Let_def update_one_unmatched
      find_one_None_iff [symmetric] serialize_def)

theorem save_place_unknown_user_witness:
  "save_place (Some (one_user [])) ''000000000000000000000007'' ''p1'' =
     (Inr None, Some (one_user []))"
  using save_place_unknown_user [OF ObjectId_7, where s = "one_user []" and pid = "''p1''"]
  by (simp add: one_user_def ana_def)

subsection \<open>Regular expressions without special characters\<close>

lemma those_map_Some:
  "(\<And>x. x \<in> set xs \<Longrightarrow> f x = Some (g x)) \<Longrightarrow> those (map f xs) = Some (map g xs)"
  by (induction xs) simp_all

lemma those_append:
  "those (xs @ ys) =
     (case those xs of None \<Rightarrow> None
      | Some as \<Rightarrow> (case those ys of None \<Rightarrow> None | Some bs \<Rightarrow> Some (as @ bs)))"
  by (induction xs) (simp_all split: option.splits)

lemma compile_char_plain: "c \<notin> set (''.^$'' @ special) \<Longrightarrow> compile_char c = Some (Lit c)"
  by (auto simp: compile_char_def)

lemma compile_plain: "plain (Some p) \<Longrightarrow> compile p = Some (map Lit p)"
  unfolding compile_def plain_def
  by (intro those_map_Some compile_char_plain) (simp add: list_all_iff)

lemma compile_anchored:
  "plain (Some p) \<Longrightarrow> compile (''^'' @ p @ ''$'') = Some (Caret # map Lit p @ [Dollar])"
  using compile_plain [of p]
  by (simp add: compile_def those_append compile_char_def)

lemma match_here_literals:
  "match_here True (map Lit p @ as) start rest \<longleftrightarrow>
     (\<exists>pre post. rest = pre @ post \<and> map lower pre = map lower p
        \<and> match_here True as (start \<and> p = []) post)"
proof (induction p arbitrary: start rest)
  case Nil
  then show ?case by simp
next
  case (Cons c p)
  show ?case
  proof (cases rest)
    case Nil
    then show ?thesis by simp
  next
    case (Cons x xs)
    have "match_here True (map Lit (c # p) @ as) start rest \<longleftrightarrow>
        lower c = lower x \<and> match_here True (map Lit p @ as) False xs"
      using Cons by (simp add: same_char_def)
    also have "\<dots> \<longleftrightarrow> lower c = lower x \<and>
        (\<exists>pre post. xs = pre @ post \<and> map lower pre = map lower p
           \<and> match_here True as False post)"
      by (subst Cons.IH) (cases "p = []", simp_all)
    also have "\<dots> \<longleftrightarrow> (\<exists>pre post. rest = pre @ post \<and> map lower pre = map lower (c # p)
           \<and> match_here True as (start \<and> c # p = []) post)"
      (is "?l \<longleftrightarrow> ?r")
    proof
      assume ?l
      then obtain pre post where "xs = pre @ post" "map lower pre = map lower p"
        "match_here True as False post" "lower c = lower x"
        by blast
      then have "rest = (x # pre) @ post \<and> map lower (x # pre) = map lower (c # p)
          \<and> match_here True as (start \<and> c # p = []) post"
        using Cons by simp
      then show ?r by blast
    next
      assume ?r
      then obtain pre post where h: "rest = pre @ post" "map lower pre = map lower (c # p)"
        "match_here True as (start \<and> c # p = []) post"
        by blast
      from h(2) obtain y ys where pre: "pre = y # ys" "lower y = lower c" "map lower ys = map lower p"
        by (cases pre) auto
      with h(1) Cons have "x = y" "xs = ys @ post"
        by simp_all
      with pre h(3) show ?l by auto
    qed
    finally show ?thesis .
  qed
qed

lemma match_here_plain:
  "match_here True (map Lit p) start rest \<longleftrightarrow> prefix (map lower p) (map lower rest)"
proof -
  have "match_here True (map Lit p) start rest \<longleftrightarrow>
      (\<exists>pre post. rest = pre @ post \<and> map lower pre = map lower p)"
    using match_here_literals [of p "[]" start rest] by simp
  also have "\<dots> \<longleftrightarrow> prefix (map lower p) (map lower rest)"
  proof
    assume "\<exists>pre post. rest = pre @ post \<and> map lower pre = map lower p"
    then show "prefix (map lower p) (map lower rest)"
      by (auto simp: prefix_def)
  next
    assume "prefix (map lower p) (map lower rest)"
    then obtain zs where "map lower rest = map lower p @ zs"
      by (auto simp: prefix_def)
    then have "rest = take (length p) rest @ drop (length p) rest
        \<and> map lower (take (length p) rest) = map lower p"
      by (metis append_eq_conv_conj append_take_drop_id length_map take_map)
    then show "\<exists>pre post. rest = pre @ post \<and> map lower pre = map lower p"
      by blast
  qed
  finally show ?thesis .
qed

lemma match_here_whole:
  assumes "\<not> ends_with_LF rest"
  shows "match_here True (map Lit p @ [Dollar]) start rest \<longleftrightarrow> map lower rest = map lower p"
proof -
  have "match_here True (map Lit p @ [Dollar]) start rest \<longleftrightarrow>
      (\<exists>pre post. rest = pre @ post \<and> map lower pre = map lower p \<and> (post = [] \<or> post = [LF]))"
    using match_here_literals [of p "[Dollar]" start rest] by simp
  also have "\<dots> \<longleftrightarrow> map lower rest = map lower p"
    using assms by (auto simp: ends_with_LF_def)
  finally show ?thesis .
qed

lemma search_caret_later: "\<not> search caseless (Caret # as) False subject"
  by (induction subject) simp_all

lemma search_caret:
  "search caseless (Caret # as) True subject = match_here caseless as True subject"
  by (cases subject) (simp_all add: search_caret_later)

lemma search_plain:
  "search True (map Lit q) start subject \<longleftrightarrow> sublist (map lower q) (map lower subject)"
proof (induction subject arbitrary: start)
  case Nil
  then show ?case
    by (simp add: match_here_plain)
next
  case (Cons x xs)
  then show ?case
    by (simp add: match_here_plain sublist_Cons_right)
qed

lemma regex_whole:
  assumes "plain (Some c)" and "\<not> ends_with_LF subject"
  shows "regex_match (''^'' @ c @ ''$'') ''i'' subject \<longleftrightarrow> equals_ci subject c"
  using assms
  by (simp add: regex_match_def compile_anchored search_caret match_here_whole equals_ci_def
      del: append.simps)

lemma regex_part:
  assumes "plain (Some q)"
  shows "regex_match q ''i'' subject \<longleftrightarrow> contains_ci subject q"
  using assms
  by (simp add: regex_match_def compile_plain search_plain contains_ci_def)

lemma compile_anchored_ok: "plain (Some c) \<Longrightarrow> compile (CHR ''^'' # c @ ''$'') \<noteq> None"
  using compile_anchored [of c] by simp

lemma compile_plain_ok: "plain (Some q) \<Longrightarrow> compile q \<noteq> None"
  using compile_plain [of q] by simp

lemma regex_whole':
  "plain (Some c) \<Longrightarrow> \<not> ends_with_LF subject \<Longrightarrow>
   regex_match (CHR ''^'' # c @ ''$'') ''i'' subject \<longleftrightarrow> equals_ci subject c"
  using regex_whole [of c subject] by simp

lemma contains_ci_empty: "contains_ci subject []"
  by (simp add: contains_ci_def)

lemma list_places_selected:
  assumes "plain city_arg" and "plain type_arg" and "plain q"
    and "\<not> ends_with_LF (city (body d))" and "\<not> ends_with_LF (place_type (body d))"
  shows "list_all (\<lambda>c. clause_holds place_field c (body d))
      ((if truthy city_arg
        then [Field ''city'' (Regex (''^'' @ the city_arg @ ''$'') ''i'')] else [])
       @ (if truthy type_arg
          then [Field ''type'' (Regex (''^'' @ the type_arg @ ''$'') ''i'')] else [])
       @ (if truthy q
          then [Or [Field ''name'' (Regex (the q) ''i''),
                    Field ''description'' (Regex (the q) ''i''),
                    Field ''main_tags'' (ElemMatch (Regex (the q) ''i''))]]
          else []))
    \<longleftrightarrow> spec_selected city_arg type_arg q (body d)"
proof -
  have c: "(truthy city_arg \<longrightarrow> clause_holds place_field
        (Field ''city'' (Regex (''^'' @ the city_arg @ ''$'') ''i'')) (body d))
      \<longleftrightarrow> (case city_arg of None \<Rightarrow> True | Some c \<Rightarrow> c = [] \<or> equals_ci (city (body d)) c)"
    using assms(1,4)
    by (cases city_arg) (auto simp: truthy_def place_field_def regex_whole')
  have t: "(truthy type_arg \<longrightarrow> clause_holds place_field
        (Field ''type'' (Regex (''^'' @ the type_arg @ ''$'') ''i'')) (body d))
      \<longleftrightarrow> (case type_arg of None \<Rightarrow> True | Some t \<Rightarrow> t = [] \<or> equals_ci (place_type (body d)) t)"
    using assms(2,5)
    by (cases type_arg) (auto simp: truthy_def place_field_def regex_whole')
  have q: "(truthy q \<longrightarrow> clause_holds place_field
        (Or [Field ''name'' (Regex (the q) ''i''),
             Field ''description'' (Regex (the q) ''i''),
             Field ''main_tags'' (ElemMatch (Regex (the q) ''i''))]) (body d))
      \<longleftrightarrow> (case q of None \<Rightarrow> True
          | Some x \<Rightarrow> contains_ci (place_name (body d)) x \<or> contains_ci (description (body d)) x
              \<or> list_ex (\<lambda>tag. contains_ci tag x) (main_tags (body d)))"
    using assms(3)
    by (cases q) (auto simp: truthy_def place_field_def regex_part contains_ci_empty)
  show ?thesis
    unfolding spec_selected_def c [symmetric] t [symmetric] q [symmetric]
    by (simp del: clause_holds.simps append.simps)
qed

lemma list_places_compiles:
  assumes "plain city_arg" and "plain type_arg" and "plain q"
  shows "list_all clause_compiles
      ((if truthy city_arg
        then [Field ''city'' (Regex (''^'' @ the city_arg @ ''$'') ''i'')] else [])
       @ (if truthy type_arg
          then [Field ''type'' (Regex (''^'' @ the type_arg @ ''$'') ''i'')] else [])
       @ (if truthy q
          then [Or [Field ''name'' (Regex (the q) ''i''),
                    Field ''description'' (Regex (the q) ''i''),
                    Field ''main_tags'' (ElemMatch (Regex (the q) ''i''))]]
          else []))"
proof -
  have "truthy city_arg \<Longrightarrow> compile (CHR ''^'' # the city_arg @ ''$'') \<noteq> None"
    using assms(1) by (cases city_arg) (simp_all add: truthy_def compile_anchored_ok)
  moreover have "truthy type_arg \<Longrightarrow> compile (CHR ''^'' # the type_arg @ ''$'') \<noteq> None"
    using assms(2) by (cases type_arg) (simp_all add: truthy_def compile_anchored_ok)
  moreover have "truthy q \<Longrightarrow> compile (the q) \<noteq> None"
    using assms(3) by (cases q) (simp_all add: truthy_def compile_plain_ok)
  ultimately show ?thesis
    by simp
qed

subsection \<open>The directory filter\<close>



lemma seeded_no_LF:
  "list_all (\<lambda>d. \<not> ends_with_LF (city (body d)) \<and> \<not> ends_with_LF (place_type (body d)))
     (place seeded)"
  by (simp add: seeded_def hotel_def garden_def olive_def ends_with_LF_def LF_def)

lemma plain_lisbon: "plain (Some ''lisbon'')"
  by (simp add: plain_def special_def)

lemma plain_SAFE: "plain (Some ''SAFE'')"
  by (simp add: plain_def special_def)

lemma selected_lisbon_safe:
  "filter (\<lambda>d. spec_selected (Some ''lisbon'') None (Some ''SAFE'') (body d)) (place seeded) =
     [hd (place seeded)]"
  by (simp add: seeded_def hotel_def garden_def olive_def spec_selected_def equals_ci_def contains_ci_def lower_def
      sublist_code)

text \<open>
  Claim C2, as amended. Take a store in which no city and no type of a place ends in a
  line feed, and parameters \<open>city\<close>, \<open>type\<close> and \<open>q\<close> in which no character is special in
  a regular expression. Then \<open>list_places\<close> returns exactly the places, in store order,
  whose city equals the given city without regard to case (the whole string), whose
  type equals the given type likewise, and whose name, description or one of whose tags
  contains \<open>q\<close> without regard to case. A parameter that is left out, or is the empty
  string, asks for nothing.
\<close>

theorem list_places_filter:
  assumes "plain city_arg" and "plain type_arg" and "plain q"
    and "list_all (\<lambda>d. \<not> ends_with_LF (city (body d)) \<and> \<not> ends_with_LF (place_type (body d)))
           (place s)"
  shows "list_places (Some s) city_arg type_arg q =
    Some (Inr (map serialize_doc
      (filter (\<lambda>d. spec_selected city_arg type_arg q (body d)) (place s))))"
proof -
  let ?filt = "(if truthy city_arg
        then [Field ''city'' (Regex (''^'' @ the city_arg @ ''$'') ''i'')] else [])
       @ (if truthy type_arg
          then [Field ''type'' (Regex (''^'' @ the type_arg @ ''$'') ''i'')] else [])
       @ (if truthy q
          then [Or [Field ''name'' (Regex (the q) ''i''),
                    Field ''description'' (Regex (the q) ''i''),
                    Field ''main_tags'' (ElemMatch (Regex (the q) ''i''))]]
          else [])"
  have unfold: "list_places (Some s) city_arg type_arg q =
      (case get_documents place place_field (Some s) ?filt None of
         None \<Rightarrow> None
       | Some (Inl e) \<Rightarrow> Some (Inl e)
       | Some (Inr docs) \<Rightarrow> Some (Inr (map serialize_doc docs)))"
    by (simp add: list_places_def Let_def)
  have same: "filter (\<lambda>d. list_all (\<lambda>c. clause_holds place_field c (body d)) ?filt) (place s) =
      filter (\<lambda>d. spec_selected city_arg type_arg q (body d)) (place s)"
  proof (rule filter_cong [OF refl])
    fix d
    assume "d \<in> set (place s)"
    then have "\<not> ends_with_LF (city (body d))" "\<not> ends_with_LF (place_type (body d))"
      using assms(4) by (simp_all add: list_all_iff)
    from list_places_selected [OF assms(1-3) this]
    show "list_all (\<lambda>c. clause_holds place_field c (body d)) ?filt =
        spec_selected city_arg type_arg q (body d)" .
  qed
  have "get_documents place place_field (Some s) ?filt None =
      Some (Inr (filter (\<lambda>d. spec_selected city_arg type_arg q (body d)) (place s)))"
    using list_places_compiles [OF assms(1-3)] same
    by (simp add: get_documents_def Let_def del: list_all_append append.simps)
  then show ?thesis
    using unfold by simp
qed

theorem list_places_filter_witness:
  "list_places (Some seeded) (Some ''lisbon'') None (Some ''SAFE'') =
     Some (Inr [serialize_doc (hd (place seeded))])"
  using list_places_filter [OF plain_lisbon _ plain_SAFE seeded_no_LF, of None]
  by (simp add: selected_lisbon_safe plain_def)

text \<open>
  Claim C2 as first stated has every given parameter constrain the result. The empty
  string is a given city that no place has, and \<open>if city:\<close> takes it for a parameter
  left out: all three seeded places come back.
\<close>

theorem list_places_empty_city_counterexample:
  "list_places (Some seeded) (Some '''') None None =
     Some (Inr (map serialize_doc (place seeded)))
   \<and> length (place seeded) = 3
   \<and> \<not> list_ex (\<lambda>d. equals_ci (city (body d)) '''') (place seeded)"
  by (simp add: list_places_def truthy_def get_documents_def Let_def seeded_def hotel_def garden_def olive_def equals_ci_def)

text \<open>
  The parameters are spliced into the patterns as they are, so a special character
  keeps its meaning: the city \<open>L.SBON\<close> selects Lisbon. The amended claim says nothing
  of such parameters.
\<close>

lemma list_places_pattern:
  "list_places (Some seeded) (Some ''L.SBON'') None None =
     Some (Inr [serialize_doc (hd (place seeded))])
   \<and> \<not> equals_ci (city (body (hd (place seeded)))) ''L.SBON''"
  by (simp add: list_places_def truthy_def get_documents_def Let_def seeded_def hotel_def garden_def olive_def equals_ci_def
      place_field_def regex_match_def compile_def compile_char_def special_def same_char_def
      lower_def LF_def)

subsection \<open>The rounded mean stays in range\<close>






subsection \<open>The invariant is kept\<close>



















subsection \<open>The safety scores of the stores the service builds\<close>













end
